theory Spec2Isabelle
  imports Main
begin

section \<open>The configuration builder \<open>tools/build_my_configs.py\<close>\<close>

text \<open>
  The script renders the snippet templates of a device mode in the order of an
  externally supplied load-order table, renders the full configuration template, and
  stores the results in a time-stamped archive directory. Everything it does is an
  effect on its surroundings (directories, files, the terminal, the module search
  path), so the embedding threads an explicit \<open>world\<close> through every function and
  returns, next to the new world, either the function's value or the exception that
  ended it.
\<close>

subsection \<open>Exceptions and process exit\<close>

text \<open>
  The exceptions the script can end with. \<open>SystemExit\<close> is what \<^verbatim>\<open>sys.exit()\<close> raises;
  the script calls it without an argument only. \<open>TemplateNotFound\<close> and
  \<open>TemplateError\<close> are the template engine's.
\<close>

datatype error =
    SystemExit
  | ModuleNotFoundError
  | AttributeError
  | NameError
  | KeyError
  | IndexError
  | EOFError
  | FileExistsError
  | FileNotFoundError
  | NotADirectoryError
  | IsADirectoryError
  | SameFileError
  | TemplateNotFound
  | TemplateError

text \<open>
  The status the interpreter hands to the operating system when an exception reaches
  the top level: \<^verbatim>\<open>sys.exit()\<close> with no argument is status 0, every other uncaught
  exception prints a traceback and is status 1.
\<close>

fun exit_status :: "error \<Rightarrow> nat" where
  "exit_status SystemExit = 0"
| "exit_status _ = 1"

subsection \<open>The world\<close>

text \<open>
  What appears on the terminal: a line written by \<^verbatim>\<open>print\<close>, or the prompt of
  \<^verbatim>\<open>input\<close> / \<^verbatim>\<open>getpass.getpass\<close>.
\<close>

datatype tty = Print string | Prompt string

text \<open>
  A path names the object stored under exactly that string; the script builds every
  path it writes from an absolute, normalised prefix. Symbolic links, permissions and
  quotas are not part of the world. \<open>stdin\<close> is what the operator will still type,
  line by line; \<open>xmlvar\<close> is the dictionary imported from \<^verbatim>\<open>my_variables.py\<close>;
  \<open>g_config_type\<close> is the module-level variable \<^verbatim>\<open>config_type\<close> (unbound before the
  main loop assigns it); \<open>entropy\<close> is the state of the random source the hash
  functions draw their salts from.
\<close>

record world =
  dirs :: "string set"
  files :: "string \<rightharpoonup> string"
  console :: "tty list"
  stdin :: "string list"
  sys_path :: "string list"
  xmlvar :: "string \<rightharpoonup> string"
  g_config_type :: "string option"
  entropy :: nat

type_synonym 'a run = "world \<Rightarrow> (error + 'a) \<times> world"

definition andthen :: "'a run \<Rightarrow> ('a \<Rightarrow> 'b run) \<Rightarrow> 'b run" where
  "andthen m f w = (case m w of (Inl e, w') \<Rightarrow> (Inl e, w') | (Inr x, w') \<Rightarrow> f x w')"

definition print_line :: "string \<Rightarrow> unit run" where
  "print_line s w = (Inr (), w\<lparr>console := console w @ [Print s]\<rparr>)"

text \<open>\<^verbatim>\<open>input(prompt)\<close> and \<^verbatim>\<open>getpass.getpass(prompt)\<close>: both raise \<^verbatim>\<open>EOFError\<close> at end of input.\<close>

definition read_line :: "string \<Rightarrow> string run" where
  "read_line prompt w =
     (case stdin w of
        [] \<Rightarrow> (Inl EOFError, w\<lparr>console := console w @ [Prompt prompt]\<rparr>)
      | l # ls \<Rightarrow> (Inr l, w\<lparr>console := console w @ [Prompt prompt], stdin := ls\<rparr>))"

subsection \<open>Paths (\<^verbatim>\<open>os.path\<close> on POSIX)\<close>

definition startswith_sep :: "string \<Rightarrow> bool" where
  "startswith_sep p = (case p of [] \<Rightarrow> False | c # _ \<Rightarrow> c = CHR ''/'')"

definition join2 :: "string \<Rightarrow> string \<Rightarrow> string" where
  "join2 path b =
     (if startswith_sep b then b
      else if path = [] \<or> last path = CHR ''/'' then path @ b
      else path @ ''/'' @ b)"

definition join :: "string \<Rightarrow> string list \<Rightarrow> string" where
  "join a ps = foldl join2 a ps"

fun split_sep :: "string \<Rightarrow> string list" where
  "split_sep [] = [[]]"
| "split_sep (c # cs) =
     (if c = CHR ''/'' then [] # split_sep cs
      else (case split_sep cs of [] \<Rightarrow> [[c]] | x # xs \<Rightarrow> (c # x) # xs))"

fun norm_pieces :: "bool \<Rightarrow> string list \<Rightarrow> string list \<Rightarrow> string list" where
  "norm_pieces initial_slashes new_pieces [] = new_pieces"
| "norm_pieces initial_slashes new_pieces (piece # pieces) =
     (if piece = [] \<or> piece = ''.'' then norm_pieces initial_slashes new_pieces pieces
      else if piece \<noteq> ''..'' \<or> (\<not> initial_slashes \<and> new_pieces = [])
              \<or> (new_pieces \<noteq> [] \<and> last new_pieces = ''..'')
      then norm_pieces initial_slashes (new_pieces @ [piece]) pieces
      else if new_pieces \<noteq> [] then norm_pieces initial_slashes (butlast new_pieces) pieces
      else norm_pieces initial_slashes new_pieces pieces)"

fun join_sep :: "string list \<Rightarrow> string" where
  "join_sep [] = []"
| "join_sep [x] = x"
| "join_sep (x # y # zs) = x @ ''/'' @ join_sep (y # zs)"

definition normpath :: "string \<Rightarrow> string" where
  "normpath path =
     (if path = [] then ''.''
      else
        let initial_slashes =
              (if startswith_sep path then
                 (if take 2 path = ''//'' \<and> take 3 path \<noteq> ''///'' then 2 else 1 :: nat)
               else 0);
            pieces = norm_pieces (initial_slashes \<noteq> 0) [] (split_sep path);
            p = replicate initial_slashes (CHR ''/'') @ join_sep pieces
        in if p = [] then ''.'' else p)"

text \<open>\<^verbatim>\<open>os.path.abspath\<close>, with the current working directory passed in.\<close>

definition abspath :: "string \<Rightarrow> string \<Rightarrow> string" where
  "abspath cwd_now path = normpath (if startswith_sep path then path else join2 cwd_now path)"

definition dirname :: "string \<Rightarrow> string" where
  "dirname p =
     (let head = rev (dropWhile (\<lambda>c. c \<noteq> CHR ''/'') (rev p))
      in if head \<noteq> [] \<and> head \<noteq> replicate (length head) (CHR ''/'')
         then rev (dropWhile (\<lambda>c. c = CHR ''/'') (rev head)) else head)"

definition basename :: "string \<Rightarrow> string" where
  "basename p = rev (takeWhile (\<lambda>c. c \<noteq> CHR ''/'') (rev p))"

subsection \<open>The file system calls the script makes\<close>

definition isdir :: "world \<Rightarrow> string \<Rightarrow> bool" where
  "isdir w p = (p \<in> dirs w)"

definition isfile :: "world \<Rightarrow> string \<Rightarrow> bool" where
  "isfile w p = (files w p \<noteq> None)"

definition path_exists :: "world \<Rightarrow> string \<Rightarrow> bool" where
  "path_exists w p = (isdir w p \<or> isfile w p)"

text \<open>
  \<^verbatim>\<open>os.mkdir\<close>: the path must be free and its parent must be a directory.
\<close>

definition mkdir :: "string \<Rightarrow> unit run" where
  "mkdir p w =
     (if path_exists w p then (Inl FileExistsError, w)
      else if isfile w (dirname p) then (Inl NotADirectoryError, w)
      else if \<not> isdir w (dirname p) then (Inl FileNotFoundError, w)
      else (Inr (), w\<lparr>dirs := insert p (dirs w)\<rparr>))"

text \<open>
  \<^verbatim>\<open>with open(p, 'w') as f: f.write(text)\<close>: creates the file or replaces its content.
\<close>

definition write_file :: "string \<Rightarrow> string \<Rightarrow> unit run" where
  "write_file p content w =
     (if isdir w p then (Inl IsADirectoryError, w)
      else if isfile w (dirname p) then (Inl NotADirectoryError, w)
      else if \<not> isdir w (dirname p) then (Inl FileNotFoundError, w)
      else (Inr (), w\<lparr>files := (files w)(p \<mapsto> content)\<rparr>))"

text \<open>
  \<^verbatim>\<open>shutil.copy(src, dst)\<close>: into the directory \<open>dst\<close> when it is one, else onto the
  path \<open>dst\<close>; copying a file onto itself is refused.
\<close>

definition copy_file :: "string \<Rightarrow> string \<Rightarrow> unit run" where
  "copy_file src dst w =
     (let dst' = (if isdir w dst then join dst [basename src] else dst) in
      if isfile w src \<and> dst' = src then (Inl SameFileError, w)
      else (case files w src of
              None \<Rightarrow> (Inl (if isdir w src then IsADirectoryError else FileNotFoundError), w)
            | Some content \<Rightarrow> write_file dst' content w))"

subsection \<open>What the repository does not contain\<close>

text \<open>
  A load-order table is the dictionary of a \<^verbatim>\<open>*_snippet_load_order\<close> module, in
  iteration order: each key with its list of strings, whose first element is the
  snippet's base name. A module is its attributes. The tables, the module finder
  (\<^verbatim>\<open>__import__\<close> along \<^verbatim>\<open>sys.path\<close>), the template engine (Jinja2), the three
  \<^verbatim>\<open>passlib\<close> hash functions, the working directory and the clock are not code of the
  repository: they are the fields of \<open>env\<close>.

  An engine is given the files, the loader's search path, the registered filters, the
  template's name and the variables, and the random source; it returns the rendered
  text or the engine's exception, and the random source as the filters left it.
\<close>

type_synonym load_order = "(string \<times> string list) list"

type_synonym pymodule = "string \<rightharpoonup> load_order"

type_synonym hasher = "string \<Rightarrow> nat \<Rightarrow> string \<times> nat"

type_synonym engine =
  "(string \<rightharpoonup> string) \<Rightarrow> string \<Rightarrow> (string \<times> hasher) list \<Rightarrow> string
     \<Rightarrow> (string \<rightharpoonup> string) \<Rightarrow> nat \<Rightarrow> (error + string) \<times> nat"

record env =
  cwd :: string
  clock :: string
  find_module :: "string list \<Rightarrow> string \<Rightarrow> pymodule option"
  jinja :: engine
  md5_crypt :: hasher
  des_crypt :: hasher
  sha512_crypt :: hasher

subsection \<open>\<^verbatim>\<open>myconfig_newdir\<close>\<close>

text \<open>\<^verbatim>\<open>if os.path.isdir(p) is False: body\<close>\<close>

definition unless_isdir :: "string \<Rightarrow> unit run \<Rightarrow> unit run" where
  "unless_isdir p body w = (if isdir w p then (Inr (), w) else body w)"

text \<open>
  The mode directory is named after the module-level \<^verbatim>\<open>config_type\<close>, not after a
  parameter; reading it while it is unbound is a \<^verbatim>\<open>NameError\<close>.
\<close>

definition myconfig_newdir :: "env \<Rightarrow> string \<Rightarrow> string \<Rightarrow> string run" where
  "myconfig_newdir e myconfigdir_name foldertime =
     (let myconfigpath = abspath (cwd e) (join ''..'' [''my_configs'']);
          myconfigdir = myconfigpath @ ''/'' @ myconfigdir_name @ ''-'' @ foldertime
      in
      andthen (unless_isdir myconfigpath
                 (andthen (mkdir myconfigpath)
                    (\<lambda>_. print_line ''created new myconfig directory''))) (\<lambda>_.
      andthen (unless_isdir myconfigdir
                 (andthen (mkdir myconfigdir)
                    (\<lambda>_. print_line (CHR 0x0A # ''created new archive folder ''
                                        @ myconfigdir_name @ ''-'' @ foldertime)))) (\<lambda>_.
      (\<lambda>w. case g_config_type w of
              None \<Rightarrow> (Inl NameError, w)
            | Some ct \<Rightarrow>
                andthen (unless_isdir (myconfigdir @ ''/'' @ ct)
                           (andthen (mkdir (myconfigdir @ ''/'' @ ct)) (\<lambda>_.
                            andthen (mkdir (myconfigdir @ ''/'' @ ct @ ''/snippets'')) (\<lambda>_.
                            andthen (mkdir (myconfigdir @ ''/'' @ ct @ ''/full'')) (\<lambda>_.
                            print_line (''created new subdirectories for '' @ ct))))))
                  (\<lambda>_ w'. (Inr myconfigdir, w')) w))))"

subsection \<open>The hash filters\<close>

text \<open>
  Each filter is one call into \<^verbatim>\<open>passlib\<close>, which draws a fresh salt from the random
  source.
\<close>

definition md5_hash :: "env \<Rightarrow> hasher" where
  "md5_hash e txt = md5_crypt e txt"

definition des_hash :: "env \<Rightarrow> hasher" where
  "des_hash e txt = des_crypt e txt"

definition sha512_hash :: "env \<Rightarrow> hasher" where
  "sha512_hash e txt = sha512_crypt e txt"

subsection \<open>\<^verbatim>\<open>template_render\<close> and \<^verbatim>\<open>template_save\<close>\<close>

definition template_render :: "env \<Rightarrow> string \<Rightarrow> string \<Rightarrow> string \<Rightarrow> string run" where
  "template_render e filename template_path render_type =
     andthen (print_line (''..creating template for '' @ filename)) (\<lambda>_ w.
       case jinja e (files w) (template_path @ ''/'' @ render_type)
              [(''md5_hash'', md5_hash e), (''des_hash'', des_hash e),
               (''sha512_hash'', sha512_hash e)]
              filename (xmlvar w) (entropy w) of
         (element, n) \<Rightarrow> (element, w\<lparr>entropy := n\<rparr>))"

text \<open>
  The variables file is named by the relative path \<^verbatim>\<open>my_variables.py\<close>, which the
  operating system resolves against the working directory.
\<close>

definition template_save ::
  "env \<Rightarrow> string \<Rightarrow> string \<Rightarrow> string \<Rightarrow> string \<Rightarrow> string \<Rightarrow> unit run" where
  "template_save e snippet_name myconfigdir ct element render_type =
     andthen (print_line (''..saving template for '' @ snippet_name)) (\<lambda>_.
     andthen (write_file (myconfigdir @ ''/'' @ ct @ ''/'' @ render_type @ ''/'' @ snippet_name)
                element) (\<lambda>_ w.
       if \<not> isfile w (myconfigdir @ ''/my_variables.py'')
       then copy_file (join2 (cwd e) ''my_variables.py'') (myconfigdir @ ''/my_variables.py'') w
       else (Inr (), w)))"

subsection \<open>\<^verbatim>\<open>replace_variables\<close>\<close>

text \<open>
  The body of the loop over the load-order table, for the key \<open>xml_xpath\<close>. A snippet
  whose template path does not exist is reported and skipped (\<^verbatim>\<open>continue\<close>).
\<close>

definition snippet_step ::
  "env \<Rightarrow> load_order \<Rightarrow> string \<Rightarrow> string \<Rightarrow> string \<Rightarrow> string \<Rightarrow> unit run" where
  "snippet_step e snippet_dict template_path myconfig_path ct xml_xpath =
     andthen (print_line (CHR 0x0A # ''working with '' @ xml_xpath)) (\<lambda>_ w.
       case map_of snippet_dict xml_xpath of
         None \<Rightarrow> (Inl KeyError, w)
       | Some [] \<Rightarrow> (Inl IndexError, w)
       | Some (base # _) \<Rightarrow>
           (let snippet_name = base @ ''.xml'';
                snippet_path = join template_path [''snippets'', snippet_name]
            in if \<not> path_exists w snippet_path
               then andthen (print_line snippet_path)
                      (\<lambda>_. print_line ''this snippet does not actually exist!'') w
               else andthen (template_render e snippet_name template_path ''snippets'')
                      (\<lambda>element. template_save e snippet_name myconfig_path ct element
                                    ''snippets'') w))"

text \<open>\<^verbatim>\<open>for xml_xpath in snippet_dict\<close>: the keys in the table's order.\<close>

fun snippet_loop ::
  "env \<Rightarrow> load_order \<Rightarrow> string \<Rightarrow> string \<Rightarrow> string \<Rightarrow> string list \<Rightarrow> unit run" where
  "snippet_loop e snippet_dict template_path myconfig_path ct [] w = (Inr (), w)"
| "snippet_loop e snippet_dict template_path myconfig_path ct (xml_xpath # rest) w =
     (case snippet_step e snippet_dict template_path myconfig_path ct xml_xpath w of
        (Inl err, w') \<Rightarrow> (Inl err, w')
      | (Inr _, w') \<Rightarrow> snippet_loop e snippet_dict template_path myconfig_path ct rest w')"

definition getattr :: "pymodule \<Rightarrow> string \<Rightarrow> load_order run" where
  "getattr m name w = (case m name of None \<Rightarrow> (Inl AttributeError, w) | Some d \<Rightarrow> (Inr d, w))"

definition sys_exit :: "'a run" where
  "sys_exit w = (Inl SystemExit, w)"

definition lookup_var :: "string \<Rightarrow> string run" where
  "lookup_var k w = (case xmlvar w k of None \<Rightarrow> (Inl KeyError, w) | Some v \<Rightarrow> (Inr v, w))"

definition replace_variables :: "env \<Rightarrow> string \<Rightarrow> string \<Rightarrow> unit run" where
  "replace_variables e ct archivetime w0 =
     (let template_path = abspath (cwd e) (join ''..'' [''templates'', ct]);
          w = w0\<lparr>sys_path := sys_path w0 @ [template_path]\<rparr>
      in
      case find_module e (sys_path w) (ct @ ''_snippet_load_order'') of
        None \<Rightarrow> (Inl ModuleNotFoundError, w)
      | Some load_order_module \<Rightarrow>
          andthen (if ct = ''panos'' then getattr load_order_module ''panos_gold_template_dict''
                   else if ct = ''panorama''
                        then getattr load_order_module ''panorama_gold_template_dict''
                   else andthen (print_line ''Oops. Not a supported config type'')
                          (\<lambda>_. sys_exit)) (\<lambda>snippet_dict.
          andthen (lookup_var ''MYCONFIG_DIR'') (\<lambda>myconfigdir_name.
          andthen (myconfig_newdir e myconfigdir_name archivetime) (\<lambda>myconfig_path.
          andthen (snippet_loop e snippet_dict template_path myconfig_path ct
                     (map fst snippet_dict)) (\<lambda>_.
          andthen (print_line (CHR 0x0A # ''working with full config template'')) (\<lambda>_.
          andthen (template_render e ''iron_skillet_day1_template.xml'' template_path ''full'')
            (\<lambda>element.
          andthen (template_save e ''iron_skillet_day1_template.xml'' myconfig_path ct element
                     ''full'') (\<lambda>_.
          andthen (print_line (CHR 0x0A # ''configs have been created and can be found in ''
                                 @ myconfig_path)) (\<lambda>_.
          print_line (''along with the my_variables.py values used to render the configs''
                        @ [CHR 0x0A]))))))))) w)"

subsection \<open>The main block\<close>

text \<open>
  The password is asked for twice, again and again until both entries are equal; the
  loop has no retry limit. The operator's input is a finite list here, so a loop that
  never sees two equal entries ends when the input does.
\<close>

function password_loop :: "unit run" where
  "password_loop w =
     (case read_line ''Enter the superuser administrator account password: '' w of
        (Inl err, w1) \<Rightarrow> (Inl err, w1)
      | (Inr password1, w1) \<Rightarrow>
          (case read_line ''Enter password again to verify: '' w1 of
             (Inl err, w2) \<Rightarrow> (Inl err, w2)
           | (Inr password2, w2) \<Rightarrow>
               if password1 = password2
               then (Inr (), w2\<lparr>xmlvar := (xmlvar w2)(''ADMINISTRATOR_PASSWORD'' \<mapsto> password1)\<rparr>)
               else password_loop
                      (w2\<lparr>console := console w2 @
                             [Print (CHR 0x0A # ''Passwords do not match. Please try again.''
                                       @ [CHR 0x0A])]\<rparr>)))"
  by pat_completeness auto
termination
  by (relation "measure (\<lambda>w. length (stdin w))")
     (auto simp: read_line_def split: list.splits)

declare password_loop.simps [simp del]

text \<open>
  \<^verbatim>\<open>for config_type in ['panos', 'panorama']\<close> at module level: the loop variable is the
  global that \<open>myconfig_newdir\<close> reads.
\<close>

fun modes_loop :: "env \<Rightarrow> string \<Rightarrow> string list \<Rightarrow> unit run" where
  "modes_loop e archive_time [] w = (Inr (), w)"
| "modes_loop e archive_time (ct # rest) w =
     (case replace_variables e ct archive_time (w\<lparr>g_config_type := Some ct\<rparr>) of
        (Inl err, w') \<Rightarrow> (Inl err, w')
      | (Inr _, w') \<Rightarrow> modes_loop e archive_time rest w')"

definition set_var :: "string \<Rightarrow> string \<Rightarrow> unit run" where
  "set_var k v w = (Inr (), w\<lparr>xmlvar := (xmlvar w)(k \<mapsto> v)\<rparr>)"

definition main :: "env \<Rightarrow> unit run" where
  "main e =
     andthen (print_line (replicate 80 (CHR ''=''))) (\<lambda>_.
     andthen (print_line '' '') (\<lambda>_.
     andthen (print_line (replicate 28 (CHR '' '') @ ''Welcome to Iron-Skillet''
                            @ replicate 29 (CHR '' ''))) (\<lambda>_.
     andthen (print_line '' '') (\<lambda>_.
     andthen (print_line (replicate 80 (CHR ''=''))) (\<lambda>_.
     andthen (print_line (CHR 0x0A # ''datetime used for folder creation: '' @ clock e
                            @ [CHR 0x0A])) (\<lambda>_.
     andthen (read_line ''Enter the superuser administrator account username: '') (\<lambda>user.
     andthen (set_var ''ADMINISTRATOR_USERNAME'' user) (\<lambda>_.
     andthen (print_line (CHR 0x0A # ''a phash will be created for superuser '' @ user
                            @ '' and added to the config file'' @ [CHR 0x0A])) (\<lambda>_.
     andthen password_loop (\<lambda>_.
     modes_loop e (clock e) [''panos'', ''panorama'']))))))))))"

subsection \<open>A concrete installation\<close>

text \<open>
  The examples below run the script in a small installation under
  \<^verbatim>\<open>/opt/iron-skillet\<close>. Its \<open>panos\<close> table has three entries, of which the second
  (\<open>zone\<close>) has no template file. The engine of the examples does what Jinja2 does with
  a template that contains no template syntax: it returns the template's text, and
  raises \<open>TemplateNotFound\<close> when the file is not there. It never calls a filter, so the
  hash functions of the examples are never run.
\<close>

definition plain_engine :: engine where
  "plain_engine fs root filters name vars n =
     (case fs (join2 root name) of
        None \<Rightarrow> (Inl TemplateNotFound, n)
      | Some source \<Rightarrow> (Inr source, n))"

definition example_hasher :: hasher where
  "example_hasher txt n = (txt, Suc n)"

definition example_order :: load_order where
  "example_order =
     [(''tag'', [''tag'', ''shared'']),
      (''zone'', [''zone'', ''vsys'']),
      (''device_system'', [''device_system'', ''devices''])]"

definition example_modules :: "string list \<Rightarrow> string \<Rightarrow> pymodule option" where
  "example_modules path name =
     (if name = ''panos_snippet_load_order'' \<and> ''/opt/iron-skillet/templates/panos'' \<in> set path
      then Some [''panos_gold_template_dict'' \<mapsto> example_order]
      else None)"

text \<open>The same installation with a load-order module for a mode the script does not know.\<close>

definition vpn_modules :: "string list \<Rightarrow> string \<Rightarrow> pymodule option" where
  "vpn_modules path name =
     (if name = ''vpn_snippet_load_order'' \<and> ''/opt/iron-skillet/templates/vpn'' \<in> set path
      then Some [''vpn_gold_template_dict'' \<mapsto> example_order]
      else example_modules path name)"

definition example_env :: env where
  "example_env =
     \<lparr>cwd = ''/opt/iron-skillet/tools'', clock = ''20181101_120000'',
      find_module = example_modules, jinja = plain_engine,
      md5_crypt = example_hasher, des_crypt = example_hasher, sha512_crypt = example_hasher\<rparr>"

definition vpn_env :: env where
  "vpn_env = example_env\<lparr>find_module := vpn_modules\<rparr>"

definition example_world :: world where
  "example_world =
     \<lparr>dirs = {''/opt'', ''/opt/iron-skillet'', ''/opt/iron-skillet/tools'',
              ''/opt/iron-skillet/templates'', ''/opt/iron-skillet/templates/panos'',
              ''/opt/iron-skillet/templates/panos/snippets'',
              ''/opt/iron-skillet/templates/panos/full''},
      files = [''/opt/iron-skillet/tools/my_variables.py'' \<mapsto> ''xmlvar = {}'',
               ''/opt/iron-skillet/templates/panos/snippets/tag.xml'' \<mapsto> ''<tag/>'',
               ''/opt/iron-skillet/templates/panos/snippets/device_system.xml'' \<mapsto> ''<system/>'',
               ''/opt/iron-skillet/templates/panos/full/iron_skillet_day1_template.xml''
                 \<mapsto> ''<config/>''],
      console = [],
      stdin = [],
      sys_path = [''/opt/iron-skillet/tools''],
      xmlvar = [''MYCONFIG_DIR'' \<mapsto> ''my_config''],
      g_config_type = Some ''panos'',
      entropy = 0\<rparr>"


text \<open>
  The same installation after \<open>myconfig_newdir\<close> has made the archive directories of the
  run of 2018-11-01 12:00:00.
\<close>

definition archived_world :: world where
  "archived_world =
     example_world\<lparr>dirs :=
       {''/opt/iron-skillet/my_configs'',
        ''/opt/iron-skillet/my_configs/my_config-20181101_120000'',
        ''/opt/iron-skillet/my_configs/my_config-20181101_120000/panos'',
        ''/opt/iron-skillet/my_configs/my_config-20181101_120000/panos/snippets'',
        ''/opt/iron-skillet/my_configs/my_config-20181101_120000/panos/full''}
       \<union> dirs example_world\<rparr>"

text \<open>The archived installation after its first snippet (\<open>tag\<close>) has been saved.\<close>

definition saved_world :: world where
  "saved_world =
     archived_world\<lparr>
       files := (files archived_world)
         (''/opt/iron-skillet/my_configs/my_config-20181101_120000/panos/snippets/tag.xml''
            \<mapsto> ''<tag/>'',
          ''/opt/iron-skillet/my_configs/my_config-20181101_120000/my_variables.py''
            \<mapsto> ''xmlvar = {}''),
       console := [Print ''..saving template for tag.xml'']\<rparr>"



subsection \<open>The vocabulary of the properties\<close>








text \<open>What the operator types at the password prompts, pair by pair, and what a
  number of failed attempts leave on the terminal.\<close>

definition typed_pairs :: "(string \<times> string) list \<Rightarrow> string list" where
  "typed_pairs ps = concat (map (\<lambda>(a, b). [a, b]) ps)"

definition password_prompts :: "tty list" where
  "password_prompts =
     [Prompt ''Enter the superuser administrator account password: '',
      Prompt ''Enter password again to verify: '']"

definition retry_lines :: "nat \<Rightarrow> tty list" where
  "retry_lines n =
     concat (replicate n
       (password_prompts
          @ [Print (CHR 0x0A # ''Passwords do not match. Please try again.'' @ [CHR 0x0A])]))"

text \<open>What \<open>main\<close> shows before it asks for the password of the user \<open>user\<close>.\<close>

definition greeting :: "env \<Rightarrow> string \<Rightarrow> tty list" where
  "greeting e user =
     [Print (replicate 80 (CHR ''='')),
      Print '' '',
      Print (replicate 28 (CHR '' '') @ ''Welcome to Iron-Skillet'' @ replicate 29 (CHR '' '')),
      Print '' '',
      Print (replicate 80 (CHR ''='')),
      Print (CHR 0x0A # ''datetime used for folder creation: '' @ clock e @ [CHR 0x0A]),
      Prompt ''Enter the superuser administrator account username: '',
      Print (CHR 0x0A # ''a phash will be created for superuser '' @ user
               @ '' and added to the config file'' @ [CHR 0x0A])]"

section \<open>Properties\<close>

subsection \<open>Sequencing and the file system calls\<close>

lemma andthen_Inr:
  "andthen m f w = (Inr y, w') \<Longrightarrow> \<exists>x w1. m w = (Inr x, w1) \<and> f x w1 = (Inr y, w')"
  by (auto simp: andthen_def split: prod.splits sum.splits)

lemma mkdir_Inr: "mkdir p w = (Inr u, w') \<Longrightarrow> w' = w\<lparr>dirs := insert p (dirs w)\<rparr>"
  by (auto simp: mkdir_def split: if_splits)

subsection \<open>Paths of the concrete installation\<close>

lemma templates_vpn:
  "abspath ''/opt/iron-skillet/tools'' (join ''..'' [''templates'', ''vpn''])
     = ''/opt/iron-skillet/templates/vpn''"
  by (simp add: abspath_def join_def join2_def startswith_sep_def normpath_def)


lemma my_configs_root:
  "abspath ''/opt/iron-skillet/tools'' (join ''..'' [''my_configs''])
     = ''/opt/iron-skillet/my_configs''"
  by (simp add: abspath_def join_def join2_def startswith_sep_def normpath_def)

lemma dirname_simps:
  "dirname ''/opt/iron-skillet/my_configs'' = ''/opt/iron-skillet''"
  "dirname ''/opt/iron-skillet/my_configs/my_config-20181101_120000''
     = ''/opt/iron-skillet/my_configs''"
  "dirname ''/opt/iron-skillet/my_configs/my_config-20181101_120000/panos''
     = ''/opt/iron-skillet/my_configs/my_config-20181101_120000''"
  "dirname ''/opt/iron-skillet/my_configs/my_config-20181101_120000/panos/snippets''
     = ''/opt/iron-skillet/my_configs/my_config-20181101_120000/panos''"
  "dirname ''/opt/iron-skillet/my_configs/my_config-20181101_120000/panos/full''
     = ''/opt/iron-skillet/my_configs/my_config-20181101_120000/panos''"
  by (simp_all add: dirname_def)

lemmas fs_defs =
  andthen_def unless_isdir_def isdir_def isfile_def path_exists_def mkdir_def print_line_def

subsection \<open>Unsupported modes\<close>

text \<open>
  C4, at the mode \<open>vpn\<close> in the concrete installation, which has no module
  \<^verbatim>\<open>vpn_snippet_load_order\<close>: the import on the line before the mode test raises
  \<^verbatim>\<open>ModuleNotFoundError\<close>, so the branch that prints the diagnostic
  \<^verbatim>\<open>Oops. Not a supported config type\<close> is never reached and nothing is printed.
\<close>

theorem unsupported_mode_import_error:
  "fst (replace_variables example_env ''vpn'' ''20181101_120000'' example_world)
     = Inl ModuleNotFoundError
   \<and> console (snd (replace_variables example_env ''vpn'' ''20181101_120000'' example_world))
     = []"
  by (simp add: replace_variables_def example_env_def templates_vpn example_modules_def
        example_world_def)

text \<open>
  C5, as amended: when the load-order module of a mode other than \<open>panos\<close> and
  \<open>panorama\<close> can be imported, the run prints the diagnostic and ends with
  \<^verbatim>\<open>sys.exit()\<close>, whose exit status is 0.
\<close>

theorem unsupported_mode_exit_status:
  assumes "ct \<noteq> ''panos''" and "ct \<noteq> ''panorama''"
    and "find_module e (sys_path w @ [abspath (cwd e) (join ''..'' [''templates'', ct])])
           (ct @ ''_snippet_load_order'') = Some m"
  shows "fst (replace_variables e ct t w) = Inl SystemExit
         \<and> console (snd (replace_variables e ct t w))
             = console w @ [Print ''Oops. Not a supported config type'']
         \<and> exit_status SystemExit = 0"
  using assms
  by (simp add: replace_variables_def Let_def andthen_def print_line_def sys_exit_def)

theorem unsupported_mode_exit_status_witness:
  "''vpn'' \<noteq> ''panos'' \<and> ''vpn'' \<noteq> ''panorama''
   \<and> find_module vpn_env
        (sys_path example_world
           @ [abspath (cwd vpn_env) (join ''..'' [''templates'', ''vpn''])])
        (''vpn'' @ ''_snippet_load_order'') = Some [''vpn_gold_template_dict'' \<mapsto> example_order]
   \<and> fst (replace_variables vpn_env ''vpn'' ''20181101_120000'' example_world) = Inl SystemExit
   \<and> console (snd (replace_variables vpn_env ''vpn'' ''20181101_120000'' example_world))
        = console example_world @ [Print ''Oops. Not a supported config type'']
   \<and> exit_status SystemExit = 0"
proof -
  have found: "find_module vpn_env
        (sys_path example_world
           @ [abspath (cwd vpn_env) (join ''..'' [''templates'', ''vpn''])])
        (''vpn'' @ ''_snippet_load_order'') = Some [''vpn_gold_template_dict'' \<mapsto> example_order]"
    by (simp add: vpn_env_def example_env_def templates_vpn vpn_modules_def example_world_def)
  have "''vpn'' \<noteq> ''panos''" and "''vpn'' \<noteq> ''panorama''"
    by simp_all
  from unsupported_mode_exit_status [OF this found] found show ?thesis
    by simp
qed

text \<open>
  The claim C5 as the specification states it fails in the installation that has a
  \<^verbatim>\<open>vpn_snippet_load_order\<close> module: the run for the mode \<open>vpn\<close> ends on the diagnostic
  with \<^verbatim>\<open>SystemExit\<close>, and its exit status is 0.
\<close>

theorem unsupported_mode_exit_zero_counterexample:
  "fst (replace_variables vpn_env ''vpn'' ''20181101_120000'' example_world) = Inl SystemExit
   \<and> console (snd (replace_variables vpn_env ''vpn'' ''20181101_120000'' example_world))
        = [Print ''Oops. Not a supported config type'']
   \<and> \<not> exit_status SystemExit \<noteq> 0"
  by (simp add: replace_variables_def vpn_env_def example_env_def templates_vpn vpn_modules_def
        example_world_def andthen_def print_line_def sys_exit_def)

text \<open>
  C6: for every mode other than \<open>panos\<close> and \<open>panorama\<close> the run ends with an
  exception and leaves the directories (and the files) exactly as they were: no
  \<^verbatim>\<open>my_configs\<close> root, no archive folder and no mode subdirectory is created.
\<close>

theorem unsupported_mode_creates_nothing:
  assumes "ct \<noteq> ''panos''" and "ct \<noteq> ''panorama''"
  shows "(\<exists>err. fst (replace_variables e ct t w) = Inl err)
         \<and> dirs (snd (replace_variables e ct t w)) = dirs w
         \<and> files (snd (replace_variables e ct t w)) = files w"
  using assms
  by (simp add: replace_variables_def Let_def andthen_def print_line_def sys_exit_def
        split: option.splits)

theorem unsupported_mode_creates_nothing_witness:
  "''vpn'' \<noteq> ''panos'' \<and> ''vpn'' \<noteq> ''panorama''
   \<and> (\<exists>err. fst (replace_variables example_env ''vpn'' ''20181101_120000'' example_world)
               = Inl err)
   \<and> dirs (snd (replace_variables example_env ''vpn'' ''20181101_120000'' example_world))
        = dirs example_world
   \<and> ''/opt/iron-skillet/my_configs''
        \<notin> dirs (snd (replace_variables example_env ''vpn'' ''20181101_120000'' example_world))
   \<and> files (snd (replace_variables example_env ''vpn'' ''20181101_120000'' example_world))
        = files example_world"
proof -
  have ne: "''vpn'' \<noteq> ''panos''" "''vpn'' \<noteq> ''panorama''"
    by simp_all
  have "''/opt/iron-skillet/my_configs'' \<notin> dirs example_world"
    by (simp add: example_world_def)
  with unsupported_mode_creates_nothing [OF ne, of example_env "''20181101_120000''" example_world]
  show ?thesis
    by simp
qed

subsection \<open>The archive directories\<close>

lemma ensure_dir:
  assumes "unless_isdir p (andthen (mkdir p) (\<lambda>_. print_line s)) w = (Inr u, w')"
  shows "p \<in> dirs w' \<and> dirs w \<subseteq> dirs w' \<and> g_config_type w' = g_config_type w"
proof (cases "isdir w p")
  case True
  with assms show ?thesis by (simp add: unless_isdir_def isdir_def)
next
  case False
  with assms have "andthen (mkdir p) (\<lambda>_. print_line s) w = (Inr u, w')"
    by (simp add: unless_isdir_def)
  then obtain x w1 where "mkdir p w = (Inr x, w1)" "print_line s w1 = (Inr u, w')"
    by (blast dest: andthen_Inr)
  then show ?thesis
    by (auto dest!: mkdir_Inr simp: print_line_def)
qed

lemma ensure_subdirs:
  assumes "unless_isdir p
             (andthen (mkdir p) (\<lambda>_. andthen (mkdir q) (\<lambda>_. andthen (mkdir r)
                (\<lambda>_. print_line s)))) w = (Inr u, w')"
  shows "p \<in> dirs w' \<and> dirs w \<subseteq> dirs w' \<and> g_config_type w' = g_config_type w"
proof (cases "isdir w p")
  case True
  with assms show ?thesis by (simp add: unless_isdir_def isdir_def)
next
  case False
  with assms
  have "andthen (mkdir p) (\<lambda>_. andthen (mkdir q) (\<lambda>_. andthen (mkdir r)
          (\<lambda>_. print_line s))) w = (Inr u, w')"
    by (simp add: unless_isdir_def)
  then obtain x1 w1 x2 w2 x3 w3 where
    "mkdir p w = (Inr x1, w1)" "mkdir q w1 = (Inr x2, w2)"
    "mkdir r w2 = (Inr x3, w3)" "print_line s w3 = (Inr u, w')"
    by (blast dest: andthen_Inr)
  then show ?thesis
    by (auto dest!: mkdir_Inr simp: print_line_def)
qed

text \<open>
  C8: when \<open>myconfig_newdir\<close> has returned the archive path \<open>p\<close>, a second call with
  the same folder name and time stamp (and the same mode) returns \<open>p\<close> again without an
  error, and leaves the world, the directory tree included, exactly as the first call
  left it.
\<close>

theorem myconfig_newdir_idempotent:
  assumes "myconfig_newdir e n t w = (Inr p, w')"
  shows "myconfig_newdir e n t w' = (Inr p, w')"
proof -
  define root where "root = abspath (cwd e) (join ''..'' [''my_configs''])"
  define arch where "arch = root @ ''/'' @ n @ ''-'' @ t"
  from assms obtain u1 w1 u2 w2 where
    s1: "unless_isdir root (andthen (mkdir root)
           (\<lambda>_. print_line ''created new myconfig directory'')) w = (Inr u1, w1)" and
    s2: "unless_isdir arch (andthen (mkdir arch)
           (\<lambda>_. print_line (CHR 0x0A # ''created new archive folder '' @ n @ ''-'' @ t))) w1
         = (Inr u2, w2)" and
    s3: "(case g_config_type w2 of
            None \<Rightarrow> (Inl NameError, w2)
          | Some ct \<Rightarrow>
              andthen (unless_isdir (arch @ ''/'' @ ct)
                         (andthen (mkdir (arch @ ''/'' @ ct)) (\<lambda>_.
                          andthen (mkdir (arch @ ''/'' @ ct @ ''/snippets'')) (\<lambda>_.
                          andthen (mkdir (arch @ ''/'' @ ct @ ''/full'')) (\<lambda>_.
                          print_line (''created new subdirectories for '' @ ct))))))
                (\<lambda>_ w'. (Inr arch, w')) w2) = (Inr p, w')"
    unfolding myconfig_newdir_def Let_def root_def arch_def
    by (blast dest: andthen_Inr)
  from s3 obtain ct where ct: "g_config_type w2 = Some ct"
    by (cases "g_config_type w2") auto
  with s3 obtain u3 where
    s4: "unless_isdir (arch @ ''/'' @ ct)
           (andthen (mkdir (arch @ ''/'' @ ct)) (\<lambda>_.
            andthen (mkdir (arch @ ''/'' @ ct @ ''/snippets'')) (\<lambda>_.
            andthen (mkdir (arch @ ''/'' @ ct @ ''/full'')) (\<lambda>_.
            print_line (''created new subdirectories for '' @ ct))))) w2 = (Inr u3, w')"
    and p: "p = arch"
    by (auto dest!: andthen_Inr)
  from ensure_dir [OF s1] ensure_dir [OF s2] ensure_subdirs [OF s4] ct
  have "root \<in> dirs w'" "arch \<in> dirs w'" "arch @ ''/'' @ ct \<in> dirs w'"
    "g_config_type w' = Some ct"
    by auto
  then show ?thesis
    unfolding myconfig_newdir_def Let_def root_def [symmetric] arch_def [symmetric] p
    by (simp add: andthen_def unless_isdir_def isdir_def)
qed

lemma example_newdir:
  "fst (myconfig_newdir example_env ''my_config'' ''20181101_120000'' example_world) =
     Inr ''/opt/iron-skillet/my_configs/my_config-20181101_120000''"
  by (simp add: myconfig_newdir_def Let_def example_env_def my_configs_root dirname_simps
        example_world_def fs_defs)

theorem myconfig_newdir_idempotent_witness:
  "myconfig_newdir example_env ''my_config'' ''20181101_120000'' example_world
     = (Inr ''/opt/iron-skillet/my_configs/my_config-20181101_120000'',
        snd (myconfig_newdir example_env ''my_config'' ''20181101_120000'' example_world))
   \<and> myconfig_newdir example_env ''my_config'' ''20181101_120000''
        (snd (myconfig_newdir example_env ''my_config'' ''20181101_120000'' example_world))
     = (Inr ''/opt/iron-skillet/my_configs/my_config-20181101_120000'',
        snd (myconfig_newdir example_env ''my_config'' ''20181101_120000'' example_world))"
proof -
  have first: "myconfig_newdir example_env ''my_config'' ''20181101_120000'' example_world
     = (Inr ''/opt/iron-skillet/my_configs/my_config-20181101_120000'',
        snd (myconfig_newdir example_env ''my_config'' ''20181101_120000'' example_world))"
    using example_newdir by (metis prod.collapse)
  from myconfig_newdir_idempotent [OF first] first show ?thesis
    by simp
qed

subsection \<open>What the steps of a run change\<close>













subsection \<open>The example run of the snippet loop\<close>

lemmas run_defs =
  snippet_step_def template_render_def template_save_def write_file_def copy_file_def
  plain_engine_def join_def join2_def startswith_sep_def dirname_def basename_def Let_def
  andthen_def unless_isdir_def isdir_def isfile_def path_exists_def mkdir_def print_line_def



lemma example_loop_files:
  "files (snd (snippet_loop example_env example_order ''/opt/iron-skillet/templates/panos''
          ''/opt/iron-skillet/my_configs/my_config-20181101_120000'' ''panos''
          [''tag'', ''zone'', ''device_system''] archived_world))
     ''/opt/iron-skillet/my_configs/my_config-20181101_120000/panos/snippets/zone.xml'' = None"
  "files (snd (snippet_loop example_env example_order ''/opt/iron-skillet/templates/panos''
          ''/opt/iron-skillet/my_configs/my_config-20181101_120000'' ''panos''
          [''tag'', ''zone'', ''device_system''] archived_world))
     ''/opt/iron-skillet/my_configs/my_config-20181101_120000/panos/snippets/device_system.xml''
     = Some ''<system/>''"
  by (simp_all add: run_defs example_env_def example_order_def archived_world_def example_world_def)

subsection \<open>Missing snippets\<close>



subsection \<open>The order of the snippets\<close>



subsection \<open>The copy of the variables file\<close>






























lemma example_second_save:
  "files (snd (template_save example_env ''device_system.xml''
     ''/opt/iron-skillet/my_configs/my_config-20181101_120000'' ''panos'' ''<system/>''
     ''snippets'' saved_world))
     ''/opt/iron-skillet/my_configs/my_config-20181101_120000/my_variables.py''
   = Some ''xmlvar = {}''"
  by (simp add: run_defs example_env_def saved_world_def archived_world_def example_world_def)






subsection \<open>The password prompts\<close>

lemma typed_pairs_Cons: "typed_pairs ((a, b) # ps) = a # b # typed_pairs ps"
  by (simp add: typed_pairs_def)

lemma retry_lines_Suc:
  "retry_lines (Suc n) = password_prompts
     @ [Print (CHR 0x0A # ''Passwords do not match. Please try again.'' @ [CHR 0x0A])]
     @ retry_lines n"
  by (simp add: retry_lines_def)

lemma password_loop_equal:
  assumes "stdin w = p # p # rest"
  shows "password_loop w =
           (Inr (), w\<lparr>console := console w @ password_prompts, stdin := rest,
                       xmlvar := (xmlvar w)(''ADMINISTRATOR_PASSWORD'' \<mapsto> p)\<rparr>)"
  apply (insert assms)
  apply (cases w)
  apply (subst password_loop.simps)
  apply (simp add: read_line_def password_prompts_def)
  done

lemma password_loop_differ:
  assumes "stdin w = a # b # typed" and "a \<noteq> b"
  shows "password_loop w =
           password_loop (w\<lparr>console := console w @ password_prompts
                 @ [Print (CHR 0x0A # ''Passwords do not match. Please try again.'' @ [CHR 0x0A])],
               stdin := typed\<rparr>)"
  apply (insert assms)
  apply (cases w)
  apply (subst password_loop.simps)
  apply (simp add: read_line_def password_prompts_def)
  done

lemma password_loop_short:
  assumes "length (stdin w) \<le> 1"
  shows "fst (password_loop w) = Inl EOFError"
  apply (insert assms)
  apply (subst password_loop.simps)
  apply (auto simp: read_line_def split: list.splits)
  done

lemma password_loop_match:
  assumes "\<forall>(a, b) \<in> set ps. a \<noteq> b"
    and "stdin w = typed_pairs ps @ p # p # rest"
  shows "password_loop w =
           (Inr (), w\<lparr>console := console w @ retry_lines (length ps) @ password_prompts,
                       stdin := rest,
                       xmlvar := (xmlvar w)(''ADMINISTRATOR_PASSWORD'' \<mapsto> p)\<rparr>)"
  using assms
proof (induction ps arbitrary: w)
  case Nil
  then have "stdin w = p # p # rest"
    by (simp add: typed_pairs_def)
  moreover have "retry_lines (length ([] :: (string \<times> string) list)) @ password_prompts
      = password_prompts"
    by (simp add: retry_lines_def)
  ultimately show ?case
    by (simp only: password_loop_equal)
next
  case (Cons ab ps)
  obtain a b where ab: "ab = (a, b)" by (cases ab)
  with Cons.prems have ne: "a \<noteq> b" and rest: "\<forall>(a, b) \<in> set ps. a \<noteq> b"
    and input: "stdin w = a # b # typed_pairs ps @ p # p # rest"
    by (auto simp: typed_pairs_Cons)
  let ?w = "w\<lparr>console := console w @ password_prompts
                 @ [Print (CHR 0x0A # ''Passwords do not match. Please try again.'' @ [CHR 0x0A])],
               stdin := typed_pairs ps @ p # p # rest\<rparr>"
  note step = password_loop_differ [OF input ne]
  have "stdin ?w = typed_pairs ps @ p # p # rest" by simp
  from Cons.IH [OF rest this] step show ?case
    by (simp add: ab retry_lines_Suc)
qed

lemma password_loop_eof:
  assumes "\<forall>(a, b) \<in> set ps. a \<noteq> b"
    and "stdin w = typed_pairs ps @ left" and "length left \<le> 1"
  shows "fst (password_loop w) = Inl EOFError"
  using assms
proof (induction ps arbitrary: w)
  case Nil
  then have "length (stdin w) \<le> 1"
    by (simp add: typed_pairs_def)
  then show ?case by (rule password_loop_short)
next
  case (Cons ab ps)
  obtain a b where ab: "ab = (a, b)" by (cases ab)
  with Cons.prems have ne: "a \<noteq> b" and rest: "\<forall>(a, b) \<in> set ps. a \<noteq> b"
    and input: "stdin w = a # b # typed_pairs ps @ left"
    by (auto simp: typed_pairs_Cons)
  let ?w = "w\<lparr>console := console w @ password_prompts
                 @ [Print (CHR 0x0A # ''Passwords do not match. Please try again.'' @ [CHR 0x0A])],
               stdin := typed_pairs ps @ left\<rparr>"
  note step = password_loop_differ [OF input ne]
  have "stdin ?w = typed_pairs ps @ left" by simp
  from Cons.IH [OF rest this Cons.prems(3)] step show ?case
    by simp
qed

lemma main_until_password:
  assumes "stdin w = user # typed"
  shows "main e w =
     andthen password_loop (\<lambda>_. modes_loop e (clock e) [''panos'', ''panorama''])
       (w\<lparr>console := console w @ greeting e user, stdin := typed,
          xmlvar := (xmlvar w)(''ADMINISTRATOR_USERNAME'' \<mapsto> user)\<rparr>)"
  apply (insert assms)
  apply (cases w)
  apply (simp add: main_def andthen_def print_line_def read_line_def set_var_def greeting_def)
  done

text \<open>
  C9: let the operator type any number of pairs of unequal entries. If a pair of two
  equal entries \<open>p\<close> follows, the loop has asked again after each unequal pair, ends at
  the equal pair, and leaves \<open>ADMINISTRATOR_PASSWORD\<close> set to \<open>p\<close>; nothing but the
  terminal, the remaining input and that variable has changed. If no equal pair follows
  (the input ends), the loop does not complete: it ends with \<^verbatim>\<open>EOFError\<close>. In \<open>main\<close>
  the loop over the modes, which does all the rendering, starts from the world the
  password loop leaves: no file or directory has changed by then, and the terminal shows
  the greeting and the prompts only.
\<close>

theorem password_loop_until_match:
  assumes "\<forall>(a, b) \<in> set ps. a \<noteq> b"
  shows "(stdin w = typed_pairs ps @ p # p # rest \<longrightarrow>
            password_loop w =
              (Inr (), w\<lparr>console := console w @ retry_lines (length ps) @ password_prompts,
                          stdin := rest,
                          xmlvar := (xmlvar w)(''ADMINISTRATOR_PASSWORD'' \<mapsto> p)\<rparr>))
       \<and> (stdin w = typed_pairs ps @ left \<and> length left \<le> 1 \<longrightarrow>
            fst (password_loop w) = Inl EOFError)
       \<and> (stdin w = user # typed_pairs ps @ p # p # rest \<longrightarrow>
            main e w =
              modes_loop e (clock e) [''panos'', ''panorama'']
                (w\<lparr>console := console w @ greeting e user @ retry_lines (length ps)
                                 @ password_prompts,
                    stdin := rest,
                    xmlvar := (xmlvar w)(''ADMINISTRATOR_USERNAME'' \<mapsto> user,
                                         ''ADMINISTRATOR_PASSWORD'' \<mapsto> p)\<rparr>))"
proof (intro conjI impI)
  assume "stdin w = typed_pairs ps @ p # p # rest"
  with assms show "password_loop w =
      (Inr (), w\<lparr>console := console w @ retry_lines (length ps) @ password_prompts,
                  stdin := rest,
                  xmlvar := (xmlvar w)(''ADMINISTRATOR_PASSWORD'' \<mapsto> p)\<rparr>)"
    by (rule password_loop_match)
next
  assume "stdin w = typed_pairs ps @ left \<and> length left \<le> 1"
  with assms show "fst (password_loop w) = Inl EOFError"
    by (blast intro: password_loop_eof)
next
  assume input: "stdin w = user # typed_pairs ps @ p # p # rest"
  let ?w1 = "w\<lparr>console := console w @ greeting e user,
                stdin := typed_pairs ps @ p # p # rest,
                xmlvar := (xmlvar w)(''ADMINISTRATOR_USERNAME'' \<mapsto> user)\<rparr>"
  have "stdin ?w1 = typed_pairs ps @ p # p # rest"
    by simp
  from password_loop_match [OF assms this]
  have "password_loop ?w1 =
      (Inr (), w\<lparr>console := console w @ greeting e user @ retry_lines (length ps)
                                 @ password_prompts,
                    stdin := rest,
                    xmlvar := (xmlvar w)(''ADMINISTRATOR_USERNAME'' \<mapsto> user,
                                         ''ADMINISTRATOR_PASSWORD'' \<mapsto> p)\<rparr>)"
    by (cases w) simp
  with main_until_password [OF input, of e]
  show "main e w =
      modes_loop e (clock e) [''panos'', ''panorama'']
        (w\<lparr>console := console w @ greeting e user @ retry_lines (length ps)
                         @ password_prompts,
            stdin := rest,
            xmlvar := (xmlvar w)(''ADMINISTRATOR_USERNAME'' \<mapsto> user,
                                 ''ADMINISTRATOR_PASSWORD'' \<mapsto> p)\<rparr>)"
    by (simp add: andthen_def)
qed

theorem password_loop_until_match_witness:
  "''secret'' \<noteq> ''secert''
   \<and> password_loop (example_world\<lparr>stdin := [''secret'', ''secert'', ''secret'', ''secret'']\<rparr>)
       = (Inr (),
          example_world\<lparr>console :=
              [Prompt ''Enter the superuser administrator account password: '',
               Prompt ''Enter password again to verify: '',
               Print (CHR 0x0A # ''Passwords do not match. Please try again.'' @ [CHR 0x0A]),
               Prompt ''Enter the superuser administrator account password: '',
               Prompt ''Enter password again to verify: ''],
            stdin := [],
            xmlvar := (xmlvar example_world)(''ADMINISTRATOR_PASSWORD'' \<mapsto> ''secret'')\<rparr>)
   \<and> fst (password_loop (example_world\<lparr>stdin := [''secret'', ''secert'', ''secret'']\<rparr>))
       = Inl EOFError
   \<and> main example_env
        (example_world\<lparr>stdin := [''admin'', ''secret'', ''secert'', ''secret'', ''secret'']\<rparr>)
       = modes_loop example_env ''20181101_120000'' [''panos'', ''panorama'']
           (example_world\<lparr>console :=
              greeting example_env ''admin'' @
              [Prompt ''Enter the superuser administrator account password: '',
               Prompt ''Enter password again to verify: '',
               Print (CHR 0x0A # ''Passwords do not match. Please try again.'' @ [CHR 0x0A]),
               Prompt ''Enter the superuser administrator account password: '',
               Prompt ''Enter password again to verify: ''],
            stdin := [],
            xmlvar := (xmlvar example_world)(''ADMINISTRATOR_USERNAME'' \<mapsto> ''admin'',
                                             ''ADMINISTRATOR_PASSWORD'' \<mapsto> ''secret'')\<rparr>)"
proof -
  have differ: "\<forall>(a, b) \<in> set [(''secret'', ''secert'')]. a \<noteq> b"
    by simp
  have typed: "typed_pairs [(''secret'', ''secert'')] = [''secret'', ''secert'']"
    by (simp add: typed_pairs_def)
  have shown: "retry_lines (Suc 0) @ password_prompts =
      [Prompt ''Enter the superuser administrator account password: '',
       Prompt ''Enter password again to verify: '',
       Print (CHR 0x0A # ''Passwords do not match. Please try again.'' @ [CHR 0x0A]),
       Prompt ''Enter the superuser administrator account password: '',
       Prompt ''Enter password again to verify: '']"
    by (simp add: retry_lines_def password_prompts_def)
  have quiet_start: "console example_world = []" and time: "clock example_env = ''20181101_120000''"
    by (simp_all add: example_world_def example_env_def)
  note claim = password_loop_until_match [OF differ, where p = "''secret''" and rest = "[]"]
  from claim [of "example_world\<lparr>stdin := [''secret'', ''secert'', ''secret'', ''secret'']\<rparr>",
      THEN conjunct1]
  have matched: "password_loop
      (example_world\<lparr>stdin := [''secret'', ''secert'', ''secret'', ''secret'']\<rparr>)
       = (Inr (),
          example_world\<lparr>console :=
              [Prompt ''Enter the superuser administrator account password: '',
               Prompt ''Enter password again to verify: '',
               Print (CHR 0x0A # ''Passwords do not match. Please try again.'' @ [CHR 0x0A]),
               Prompt ''Enter the superuser administrator account password: '',
               Prompt ''Enter password again to verify: ''],
            stdin := [],
            xmlvar := (xmlvar example_world)(''ADMINISTRATOR_PASSWORD'' \<mapsto> ''secret'')\<rparr>)"
    by (simp add: typed shown quiet_start)
  from claim [of "example_world\<lparr>stdin := [''secret'', ''secert'', ''secret'']\<rparr>"
      "[''secret'']", THEN conjunct2, THEN conjunct1]
  have ended: "fst (password_loop (example_world\<lparr>stdin := [''secret'', ''secert'', ''secret'']\<rparr>))
       = Inl EOFError"
    by (simp add: typed)
  from claim [of "example_world\<lparr>stdin := [''admin'', ''secret'', ''secert'', ''secret'',
        ''secret'']\<rparr>" _ "''admin''" example_env, THEN conjunct2, THEN conjunct2]
  have started: "main example_env
        (example_world\<lparr>stdin := [''admin'', ''secret'', ''secert'', ''secret'', ''secret'']\<rparr>)
       = modes_loop example_env ''20181101_120000'' [''panos'', ''panorama'']
           (example_world\<lparr>console :=
              greeting example_env ''admin'' @
              [Prompt ''Enter the superuser administrator account password: '',
               Prompt ''Enter password again to verify: '',
               Print (CHR 0x0A # ''Passwords do not match. Please try again.'' @ [CHR 0x0A]),
               Prompt ''Enter the superuser administrator account password: '',
               Prompt ''Enter password again to verify: ''],
            stdin := [],
            xmlvar := (xmlvar example_world)(''ADMINISTRATOR_USERNAME'' \<mapsto> ''admin'',
                                             ''ADMINISTRATOR_PASSWORD'' \<mapsto> ''secret'')\<rparr>)"
    by (simp add: typed shown quiet_start time)
  from matched ended started show ?thesis
    by simp
qed

end
